theory Spec2Isabelle
  imports Complex_Main "HOL-Library.Word" "HOL-Library.Log_Nat"
begin

section \<open>Helper functions for images (mathics/eval/image.py)\<close>

text \<open>
  The module holds three groups of functions: the conversions of a pixel buffer between
  its element types (\<open>pixels_as_float\<close>, \<open>pixels_as_ubyte\<close>, \<open>pixels_as_uint\<close>), the
  array helpers (\<open>numpy_flip\<close>, \<open>convolve\<close>) and the translation of Exif metadata
  (\<open>extract_exif\<close>). Every Python exception the functions can raise is a value of
  \<open>py_error\<close>, and a function that can raise returns \<open>py_error + 'a\<close>.
\<close>

datatype py_error = NotImplementedError | IndexError | ValueError | TypeError | HostError

definition bind_err :: "'e + 'a \<Rightarrow> ('a \<Rightarrow> 'e + 'b) \<Rightarrow> 'e + 'b" where
  "bind_err m f = (case m of Inl e \<Rightarrow> Inl e | Inr x \<Rightarrow> f x)"

subsection \<open>Floating-point arithmetic\<close>

text \<open>
  A finite floating-point number is the rational it denotes. An arithmetic operation of
  a binary format with \<open>p\<close> significand bits and least normal exponent \<open>emin\<close> returns
  the exact result rounded to the nearest representable number, ties to the even
  significand (IEEE 754, the only rounding NumPy uses): \<open>fl_round p emin\<close>. Numbers
  below \<open>2 powi emin\<close> are rounded on the subnormal grid. Infinities and NaN are not
  modelled, nor is overflow: a pixel conversion clamps its operand to \<open>[0, 1]\<close> before it
  multiplies, so its results stay below \<open>2 ^ 16\<close>.
\<close>

definition fl_exponent :: "rat \<Rightarrow> int" where
  "fl_exponent q =
     (let (a, b) = quotient_of \<bar>q\<bar>; e = bitlen a - bitlen b
      in if 2 powi e \<le> \<bar>q\<bar> then e else e - 1)"

definition round_half_even :: "rat \<Rightarrow> int" where
  "round_half_even q =
     (let f = \<lfloor>q\<rfloor>; r = q - of_int f
      in if r < 1 / 2 then f else if 1 / 2 < r then f + 1
         else if even f then f else f + 1)"

definition fl_round :: "nat \<Rightarrow> int \<Rightarrow> rat \<Rightarrow> rat" where
  "fl_round p emin q =
     (if q = 0 then 0
      else let e = max (fl_exponent q) emin; u = 2 powi (e - (int p - 1))
           in of_int (round_half_even (q / u)) * u)"

definition float32 :: "rat \<Rightarrow> rat" where
  "float32 = fl_round 24 (- 126)"

definition float64 :: "rat \<Rightarrow> rat" where
  "float64 = fl_round 53 (- 1022)"

text \<open>\<open>astype\<close> from a float to an unsigned integer type truncates towards zero.\<close>

definition trunc :: "rat \<Rightarrow> int" where
  "trunc q = (if 0 \<le> q then \<lfloor>q\<rfloor> else \<lceil>q\<rceil>)"

definition astype_uint8 :: "rat \<Rightarrow> 8 word" where
  "astype_uint8 q = word_of_int (trunc q)"

definition astype_uint16 :: "rat \<Rightarrow> 16 word" where
  "astype_uint16 q = word_of_int (trunc q)"

subsection \<open>Pixel buffers\<close>

text \<open>
  A pixel buffer is a three-dimensional array (rows, columns, channels), here a list of
  rows, each a list of pixels, each a list of channel values. Its \<open>dtype\<close> is the
  constructor: the four element types the module supports, and \<open>OtherDtype\<close> for a
  buffer of any other element type (whose elements no function of the module reads).
\<close>

type_synonym 'a arr3 = "'a list list list"

definition map3 :: "('a \<Rightarrow> 'b) \<Rightarrow> 'a arr3 \<Rightarrow> 'b arr3" where
  "map3 f = map (map (map f))"

datatype pixels =
    Float32 "rat arr3"
  | Float64 "rat arr3"
  | UInt8 "8 word arr3"
  | UInt16 "16 word arr3"
  | Boolean "bool arr3"
  | OtherDtype

text \<open>
  \<open>pixels.astype(numpy.uint8)\<close> on a boolean buffer, and the product of a \<open>uint8\<close>
  buffer with a Python integer. The repository runs on NumPy 1.x, whose result type
  depends on the value of the scalar: the smallest unsigned type that holds the scalar
  is promoted with \<open>uint8\<close>, and the product is computed in that type. (A scalar that
  needs a wider or a signed type gives a buffer of a type outside the module's four.)
\<close>

definition bool_astype_uint8 :: "bool arr3 \<Rightarrow> 8 word arr3" where
  "bool_astype_uint8 = map3 (\<lambda>b. if b then 1 else 0)"

definition uint8_times_int :: "8 word arr3 \<Rightarrow> int \<Rightarrow> pixels" where
  "uint8_times_int a c =
     (if 0 \<le> c \<and> c \<le> 255 then UInt8 (map3 (\<lambda>x. x * word_of_int c) a)
      else if 0 \<le> c \<and> c \<le> 65535 then UInt16 (map3 (\<lambda>x. ucast x * word_of_int c) a)
      else OtherDtype)"

text \<open>
  \<^verbatim>\<open>
  def pixels_as_float(pixels):
      dtype = pixels.dtype
      if dtype in (numpy.float32, numpy.float64):
          return pixels
      elif dtype == numpy.uint8:
          return pixels.astype(numpy.float32) / 255.0
      elif dtype == numpy.uint16:
          return pixels.astype(numpy.float32) / 65535.0
      elif dtype is numpy.dtype(bool):
          return pixels.astype(numpy.float32)
      else:
          raise NotImplementedError
  \<close>
  A \<open>float32\<close> buffer divided by a Python float stays \<open>float32\<close>.
\<close>

fun pixels_as_float :: "pixels \<Rightarrow> py_error + pixels" where
  "pixels_as_float (Float32 a) = Inr (Float32 a)"
| "pixels_as_float (Float64 a) = Inr (Float64 a)"
| "pixels_as_float (UInt8 a) =
     Inr (Float32 (map3 (\<lambda>x. float32 (float32 (of_nat (unat x)) / 255)) a))"
| "pixels_as_float (UInt16 a) =
     Inr (Float32 (map3 (\<lambda>x. float32 (float32 (of_nat (unat x)) / 65535)) a))"
| "pixels_as_float (Boolean a) = Inr (Float32 (map3 (\<lambda>b. if b then 1 else 0) a))"
| "pixels_as_float OtherDtype = Inl NotImplementedError"

text \<open>
  \<^verbatim>\<open>
  def pixels_as_ubyte(pixels):
      dtype = pixels.dtype
      if dtype in (numpy.float32, numpy.float64):
          pixels = numpy.maximum(numpy.minimum(pixels, 1.0), 0.0)
          return (pixels * 255.0).astype(numpy.uint8)
      elif dtype == numpy.uint8:
          return pixels
      elif dtype == numpy.uint16:
          return (pixels / 256).astype(numpy.uint8)
      elif dtype is numpy.dtype(bool):
          return pixels.astype(numpy.uint8) * 255
      else:
          raise NotImplementedError
  \<close>
  The true division of a \<open>uint16\<close> buffer is computed in \<open>float64\<close>.
\<close>

fun pixels_as_ubyte :: "pixels \<Rightarrow> py_error + pixels" where
  "pixels_as_ubyte (Float32 a) =
     Inr (UInt8 (map3 (\<lambda>q. astype_uint8 (float32 (max (min q 1) 0 * 255))) a))"
| "pixels_as_ubyte (Float64 a) =
     Inr (UInt8 (map3 (\<lambda>q. astype_uint8 (float64 (max (min q 1) 0 * 255))) a))"
| "pixels_as_ubyte (UInt8 a) = Inr (UInt8 a)"
| "pixels_as_ubyte (UInt16 a) =
     Inr (UInt8 (map3 (\<lambda>x. astype_uint8 (float64 (of_nat (unat x) / 256))) a))"
| "pixels_as_ubyte (Boolean a) = Inr (uint8_times_int (bool_astype_uint8 a) 255)"
| "pixels_as_ubyte OtherDtype = Inl NotImplementedError"

text \<open>
  \<^verbatim>\<open>
  def pixels_as_uint(pixels):
      dtype = pixels.dtype
      if dtype in (numpy.float32, numpy.float64):
          pixels = numpy.maximum(numpy.minimum(pixels, 1.0), 0.0)
          return (pixels * 65535.0).astype(numpy.uint16)
      elif dtype == numpy.uint8:
          return pixels.astype(numpy.uint16) * 256
      elif dtype == numpy.uint16:
          return pixels
      elif dtype is numpy.dtype(bool):
          return pixels.astype(numpy.uint8) * 65535
      else:
          raise NotImplementedError
  \<close>
\<close>

fun pixels_as_uint :: "pixels \<Rightarrow> py_error + pixels" where
  "pixels_as_uint (Float32 a) =
     Inr (UInt16 (map3 (\<lambda>q. astype_uint16 (float32 (max (min q 1) 0 * 65535))) a))"
| "pixels_as_uint (Float64 a) =
     Inr (UInt16 (map3 (\<lambda>q. astype_uint16 (float64 (max (min q 1) 0 * 65535))) a))"
| "pixels_as_uint (UInt8 a) = Inr (UInt16 (map3 (\<lambda>x. ucast x * 256) a))"
| "pixels_as_uint (UInt16 a) = Inr (UInt16 a)"
| "pixels_as_uint (Boolean a) = Inr (uint8_times_int (bool_astype_uint8 a) 65535)"
| "pixels_as_uint OtherDtype = Inl NotImplementedError"

text \<open>
  The check used for the round trip of a byte through the float representation: the float
  conversion of byte \<open>n\<close>, clamped, scaled by 255 and truncated, is \<open>n\<close> again.
\<close>

definition ubyte_roundtrip :: "int \<Rightarrow> bool" where
  "ubyte_roundtrip n \<longleftrightarrow>
     trunc (float32 (max (min (float32 (of_int n / 255)) 1) 0 * 255)) = n"

subsection \<open>Flipping\<close>

text \<open>
  \<^verbatim>\<open>
  def numpy_flip(pixels, axis):
      f = (numpy.flipud, numpy.fliplr)[axis]
      return f(pixels)
  \<close>
  \<open>numpy_flip\<close> picks \<open>numpy.flipud\<close> or \<open>numpy.fliplr\<close> out of a pair by indexing
  it with \<open>axis\<close>. Indexing a pair follows Python: the indices \<open>0\<close> and \<open>1\<close>, and
  \<open>-2\<close> and \<open>-1\<close> counted from the end; any other index raises \<open>IndexError\<close>.
\<close>

definition flipud :: "'a arr3 \<Rightarrow> 'a arr3" where
  "flipud m = rev m"

definition fliplr :: "'a arr3 \<Rightarrow> 'a arr3" where
  "fliplr m = map rev m"

definition pair_getitem :: "'a \<times> 'a \<Rightarrow> int \<Rightarrow> py_error + 'a" where
  "pair_getitem t i =
     (let j = (if i < 0 then i + 2 else i)
      in if j = 0 then Inr (fst t) else if j = 1 then Inr (snd t) else Inl IndexError)"

definition numpy_flip :: "'a arr3 \<Rightarrow> int \<Rightarrow> py_error + 'a arr3" where
  "numpy_flip pixels axis =
     bind_err (pair_getitem (flipud, fliplr) axis) (\<lambda>f. Inr (f pixels))"

subsection \<open>Convolution\<close>

text \<open>
  \<^verbatim>\<open>
  def convolve(in1, in2, fixed=True):
      in1 = numpy.asarray(in1)
      in2 = numpy.asarray(in2)

      padding = numpy.array(in2.shape) // 2
      if fixed:  # add "Fixed" padding?
          in1 = numpy.pad(in1, padding, "edge")

      s1 = numpy.array(in1.shape)
      s2 = numpy.array(in2.shape)
      shape = s1 + s2 - 1

      sp1 = numpy.fft.rfftn(in1, shape)
      sp2 = numpy.fft.rfftn(in2, shape)
      ret = numpy.fft.irfftn(sp1 * sp2, shape)

      excess = (numpy.array(ret.shape) - s1) // 2 + padding
      return ret[tuple(slice(p, -p) for p in excess)]
  \<close>
  \<open>convolve\<close> sends its arrays through NumPy's FFT in floating point. What its
  statements do to the \<^emph>\<open>shape\<close> of the arrays is exact, and this is what is modelled:
  an array is represented by its shape, the list of its dimensions.

  \<^item> \<open>numpy.pad(a, pad_width, "edge")\<close> with a one-dimensional \<open>pad_width\<close>: one entry
    \<open>[p]\<close> pads every axis by \<open>p\<close> on both sides; two entries \<open>[p, q]\<close> pad every axis
    by \<open>p\<close> before and \<open>q\<close> after; a longer one cannot be broadcast to one pair per
    axis and raises \<open>ValueError\<close>, as do a negative width and an empty axis that is to be
    extended; an empty one (of a kernel without dimensions) is an array of floats and
    raises \<open>TypeError\<close>.
  \<^item> Arithmetic on two one-dimensional integer arrays is elementwise, a one-element
    array being broadcast; other lengths raise \<open>ValueError\<close>.
  \<^item> \<open>numpy.fft.rfftn(a, s)\<close> transforms the last \<open>len(s)\<close> axes at the sizes \<open>s\<close>, each
    at least 1, and leaves \<open>s[-1] // 2 + 1\<close> entries on the last axis;
    \<open>numpy.fft.irfftn(a, s)\<close> returns the sizes \<open>s\<close> on these axes.
  \<^item> \<open>a[tuple(slice(p, -p) ...)]\<close> cuts each leading axis with Python's slice rule.
\<close>

type_synonym shape = "int list"

definition pad_pairs :: "int list \<Rightarrow> py_error + int \<times> int" where
  "pad_pairs pad_width =
     (case pad_width of
        [] \<Rightarrow> Inl TypeError
      | [p] \<Rightarrow> if p < 0 then Inl ValueError else Inr (p, p)
      | [p, q] \<Rightarrow> if p < 0 \<or> q < 0 then Inl ValueError else Inr (p, q)
      | _ \<Rightarrow> Inl ValueError)"

definition numpy_pad_edge :: "shape \<Rightarrow> int list \<Rightarrow> py_error + shape" where
  "numpy_pad_edge a pad_width =
     bind_err (pad_pairs pad_width) (\<lambda>(pad_before, pad_after).
       if 0 \<in> set a \<and> (pad_before \<noteq> 0 \<or> pad_after \<noteq> 0) then Inl ValueError
       else Inr (map (\<lambda>n. n + pad_before + pad_after) a))"

definition broadcast2 :: "(int \<Rightarrow> int \<Rightarrow> int) \<Rightarrow> int list \<Rightarrow> int list \<Rightarrow> py_error + int list" where
  "broadcast2 f xs ys =
     (if length xs = length ys then Inr (map2 f xs ys)
      else if length xs = 1 then Inr (map (f (hd xs)) ys)
      else if length ys = 1 then Inr (map (\<lambda>x. f x (hd ys)) xs)
      else Inl ValueError)"

definition rfftn :: "shape \<Rightarrow> int list \<Rightarrow> py_error + shape" where
  "rfftn a s =
     (if s = [] then Inl IndexError
      else if length a < length s \<or> list_ex (\<lambda>n. n < 1) s then Inl ValueError
      else Inr (take (length a - length s) a @ butlast s @ [last s div 2 + 1]))"

definition irfftn :: "shape \<Rightarrow> int list \<Rightarrow> py_error + shape" where
  "irfftn a s =
     (if s = [] then Inl IndexError
      else if length a < length s \<or> list_ex (\<lambda>n. n < 1) s then Inl ValueError
      else Inr (take (length a - length s) a @ s))"

text \<open>The product of two arrays of unequal shapes: NumPy's broadcasting, from the last axis.\<close>

fun broadcast_rev :: "shape \<Rightarrow> shape \<Rightarrow> py_error + shape" where
  "broadcast_rev [] ys = Inr ys"
| "broadcast_rev xs [] = Inr xs"
| "broadcast_rev (x # xs) (y # ys) =
     (if x = y \<or> y = 1 then bind_err (broadcast_rev xs ys) (\<lambda>r. Inr (x # r))
      else if x = 1 then bind_err (broadcast_rev xs ys) (\<lambda>r. Inr (y # r))
      else Inl ValueError)"

definition multiply :: "shape \<Rightarrow> shape \<Rightarrow> py_error + shape" where
  "multiply a b = bind_err (broadcast_rev (rev a) (rev b)) (\<lambda>r. Inr (rev r))"

definition slice_length :: "int \<Rightarrow> int \<Rightarrow> int \<Rightarrow> int" where
  "slice_length n start stop =
     (let lo = (if start < 0 then max (n + start) 0 else min start n);
          hi = (if stop < 0 then max (n + stop) 0 else min stop n)
      in max (hi - lo) 0)"

definition getitem_slices :: "shape \<Rightarrow> int list \<Rightarrow> py_error + shape" where
  "getitem_slices a ps =
     (if length a < length ps then Inl IndexError
      else Inr (map2 (\<lambda>n p. slice_length n p (- p)) a ps @ drop (length ps) a))"

definition convolve :: "shape \<Rightarrow> shape \<Rightarrow> bool \<Rightarrow> py_error + shape" where
  "convolve in1 in2 fixed =
     (let padding = map (\<lambda>k. k div 2) in2 in
      bind_err (if fixed then numpy_pad_edge in1 padding else Inr in1) (\<lambda>in1.
      let s1 = in1; s2 = in2 in
      bind_err (bind_err (broadcast2 (+) s1 s2) (\<lambda>s. Inr (map (\<lambda>n. n - 1) s))) (\<lambda>shape.
      bind_err (rfftn in1 shape) (\<lambda>sp1.
      bind_err (rfftn in2 shape) (\<lambda>sp2.
      bind_err (bind_err (multiply sp1 sp2) (\<lambda>sp. irfftn sp shape)) (\<lambda>ret.
      bind_err (bind_err (broadcast2 (-) ret s1)
                  (\<lambda>d. broadcast2 (+) (map (\<lambda>n. n div 2) d) padding)) (\<lambda>excess.
      getitem_slices ret excess)))))))"

subsection \<open>Exif metadata\<close>

text \<open>
  \<^verbatim>\<open>
  def extract_exif(image, evaluation):
      if hasattr(image, "getexif"):
          try:
              exif = image.getexif()
          except Exception:
              return None
          if not exif:
              return None
          exif_options = []
          for k, v in sorted(exif.items(), key=itemgetter(0)):
              name = ExifTags.get(k)
              if not name:
                  continue
              if isinstance(v, tuple) and len(v) == 2:  # Rational
                  value = Rational(v[0], v[1])
                  if name == "FocalLength":
                      value = from_python(value.round(2))
                  else:
                      value = Expression(SymbolSimplify, value).evaluate(evaluation)
              elif isinstance(v, bytes):  # Byte
                  value = String(" ".join([str(x) for x in v]))
              elif isinstance(v, (int, str)):  # Short, Long, ASCII
                  value = from_python(v)
              else:
                  continue
              exif_options.append(
                  Expression(SymbolRule, String(Exif_names.get(k, name)), value)
              )
          return Expression(SymbolRule, String("RawExif"), ListExpression(*exif_options))
  \<close>
  \<open>ExifTags\<close> is Pillow's dictionary of tag names, or \<open>{}\<close> when Pillow cannot be
  imported; it is a parameter of the model.

  The value Pillow gives for a tag is a tuple, a \<open>bytes\<close> object, an \<open>int\<close>, a \<open>str\<close>
  or an object of another type (\<open>PyOther\<close>: a float, a rational object, \<open>None\<close>). The
  expressions built are those of the host system; of these the module itself constructs
  strings, rules and lists, and converts integers and strings with \<open>from_python\<close>. The rest is the host's work and a parameter here: the
  \<open>Rational\<close> constructor, \<open>from_python(value.round(2))\<close> and the evaluation of
  \<open>Simplify\<close>, each of which may raise.
\<close>

datatype raw_value =
    PyTuple "raw_value list"
  | PyBytes "8 word list"
  | PyInt int
  | PyStr string
  | PyOther

datatype expr =
    String string
  | Integer int
  | RationalAtom int int
  | Rule expr expr
  | ListExpression "expr list"

record host =
  Rational :: "raw_value \<Rightarrow> raw_value \<Rightarrow> py_error + expr"
  round2 :: "expr \<Rightarrow> py_error + expr"
  simplify :: "expr \<Rightarrow> py_error + expr"

text \<open>The override table of the module, and the standard dictionary when Pillow is absent.\<close>

definition Exif_names :: "int \<rightharpoonup> string" where
  "Exif_names = map_of
     [(37385, ''FlashInfo''),
      (40960, ''FlashpixVersion''),
      (40962, ''PixelXDimension''),
      (40963, ''PixelYDimension'')]"

definition no_ExifTags :: "int \<rightharpoonup> string" where
  "no_ExifTags = Map.empty"

text \<open>\<open>" ".join([str(x) for x in v])\<close> for a \<open>bytes\<close> object \<open>v\<close>.\<close>

fun str_nat :: "nat \<Rightarrow> string" where
  "str_nat n =
     (if n < 10 then [char_of (48 + n)] else str_nat (n div 10) @ [char_of (48 + n mod 10)])"

fun join :: "string \<Rightarrow> string list \<Rightarrow> string" where
  "join sep [] = []"
| "join sep [x] = x"
| "join sep (x # y # ys) = x @ sep @ join sep (y # ys)"

fun exif_value :: "host \<Rightarrow> string \<Rightarrow> raw_value \<Rightarrow> py_error + expr option" where
  "exif_value h name (PyTuple [v0, v1]) =
     bind_err (Rational h v0 v1) (\<lambda>value.
     bind_err (if name = ''FocalLength'' then round2 h value else simplify h value)
       (\<lambda>value. Inr (Some value)))"
| "exif_value h name (PyBytes v) =
     Inr (Some (String (join '' '' (map (\<lambda>x. str_nat (unat x)) v))))"
| "exif_value h name (PyInt v) = Inr (Some (Integer v))"
| "exif_value h name (PyStr v) = Inr (Some (String v))"
| "exif_value h name v = Inr None"

text \<open>
  The body of the loop for one item \<open>(k, v)\<close>: \<open>Inr None\<close> is \<open>continue\<close>,
  \<open>Inr (Some option)\<close> the rule appended to \<open>exif_options\<close>.
\<close>

definition exif_entry :: "host \<Rightarrow> (int \<rightharpoonup> string) \<Rightarrow> int \<times> raw_value \<Rightarrow> py_error + expr option" where
  "exif_entry h ExifTags kv =
     (case kv of (k, v) \<Rightarrow>
        (case ExifTags k of
           None \<Rightarrow> Inr None
         | Some name \<Rightarrow>
             if name = [] then Inr None
             else bind_err (exif_value h name v) (\<lambda>r.
               case r of
                 None \<Rightarrow> Inr None
               | Some value \<Rightarrow>
                   Inr (Some (Rule (String (case Exif_names k of None \<Rightarrow> name | Some n \<Rightarrow> n))
                                   value)))))"

fun exif_loop ::
  "host \<Rightarrow> (int \<rightharpoonup> string) \<Rightarrow> (int \<times> raw_value) list \<Rightarrow> expr list \<Rightarrow> py_error + expr list" where
  "exif_loop h ExifTags [] exif_options = Inr exif_options"
| "exif_loop h ExifTags (kv # items) exif_options =
     (case exif_entry h ExifTags kv of
        Inl e \<Rightarrow> Inl e
      | Inr None \<Rightarrow> exif_loop h ExifTags items exif_options
      | Inr (Some option) \<Rightarrow> exif_loop h ExifTags items (exif_options @ [option]))"

text \<open>
  The image either has no \<open>getexif\<close> attribute, or its \<open>getexif\<close> raises an exception
  (an instance of \<open>Exception\<close>, which the handler catches), or it returns \<open>None\<close> or a
  mapping from tag ids to values (its items, in the order of the mapping).
\<close>

datatype image =
    NoGetexif
  | GetexifRaises
  | GetexifReturns "(int \<times> raw_value) list option"

definition extract_exif :: "host \<Rightarrow> (int \<rightharpoonup> string) \<Rightarrow> image \<Rightarrow> py_error + expr option" where
  "extract_exif h ExifTags img =
     (case img of
        NoGetexif \<Rightarrow> Inr None
      | GetexifRaises \<Rightarrow> Inr None
      | GetexifReturns None \<Rightarrow> Inr None
      | GetexifReturns (Some exif) \<Rightarrow>
          if exif = [] then Inr None
          else bind_err (exif_loop h ExifTags (sort_key fst exif) []) (\<lambda>exif_options.
                 Inr (Some (Rule (String ''RawExif'') (ListExpression exif_options)))))"

text \<open>
  The rules one item \<open>(k, v)\<close> contributes to the result when no host call raises: none
  unless the standard dictionary \<open>ExifTags\<close> has a non-empty name for \<open>k\<close> and the value
  has a supported type; else one rule, named by the override table \<open>Exif_names\<close> where
  it has \<open>k\<close> and by the standard name where not.
\<close>

definition emitted :: "host \<Rightarrow> (int \<rightharpoonup> string) \<Rightarrow> int \<times> raw_value \<Rightarrow> expr list" where
  "emitted h ExifTags kv =
     (case kv of (k, v) \<Rightarrow>
       (case ExifTags k of
          None \<Rightarrow> []
        | Some name \<Rightarrow>
            if name = [] then []
            else (case exif_value h name v of
                    Inr (Some value) \<Rightarrow>
                      [Rule (String (case Exif_names k of None \<Rightarrow> name | Some n \<Rightarrow> n)) value]
                  | _ \<Rightarrow> [])))"

text \<open>A host whose constructor accepts a pair of integers and whose evaluations change nothing.\<close>

definition plain_host :: host where
  "plain_host =
     \<lparr>Rational = (\<lambda>a b. case (a, b) of (PyInt n, PyInt d) \<Rightarrow> Inr (RationalAtom n d)
                              | _ \<Rightarrow> Inl HostError),
      round2 = Inr, simplify = Inr\<rparr>"

section \<open>Properties of the pixel conversions\<close>

lemma map3_map3: "map3 f (map3 g a) = map3 (f \<circ> g) a"
  by (simp add: map3_def comp_def)

lemma map3_ident:
  assumes "\<And>x. f x = x"
  shows "map3 f a = a"
proof -
  have "f = id"
    using assms by (auto simp: fun_eq_iff)
  then show ?thesis
    by (simp add: map3_def)
qed

text \<open>
  C8. The \<open>uint16\<close> rescaling of a boolean buffer is a \<open>uint16\<close> buffer with \<open>0\<close> for
  false and \<open>65535\<close> for true.
\<close>

theorem pixels_as_uint_boolean:
  "pixels_as_uint (Boolean a) = Inr (UInt16 (map3 (\<lambda>b. if b then 65535 else 0) a))"
  by (simp add: uint8_times_int_def bool_astype_uint8_def map3_def)

subsection \<open>Rounding\<close>

lemma pow2_less_imp_less:
  assumes "(2::rat) powi m < 2 powi n"
  shows "m < n"
proof (rule ccontr)
  assume "\<not> m < n"
  then have "(2::rat) powi n \<le> 2 powi m"
    by (intro power_int_increasing) simp_all
  with assms show False by simp
qed

lemma bitlen_rat_bounds:
  assumes "0 < a"
  shows "2 powi (bitlen a - 1) \<le> (of_int a :: rat)" and "(of_int a :: rat) < 2 powi (bitlen a)"
proof -
  from bitlen_bounds [OF assms] have lo: "2 ^ nat (bitlen a - 1) \<le> a" and hi: "a < 2 ^ nat (bitlen a)"
    by simp_all
  have pos: "1 \<le> bitlen a"
    using assms by (simp add: bitlen_alt_def)
  have "(2::rat) powi (bitlen a - 1) = 2 ^ nat (bitlen a - 1)"
    using pos by (simp add: power_int_def)
  also have "\<dots> = of_int (2 ^ nat (bitlen a - 1))"
    by simp
  also have "\<dots> \<le> of_int a"
    using lo by (simp only: of_int_le_iff)
  finally show "2 powi (bitlen a - 1) \<le> (of_int a :: rat)" .
  have "(of_int a :: rat) < of_int (2 ^ nat (bitlen a))"
    using hi by (simp only: of_int_less_iff)
  also have "\<dots> = 2 powi (bitlen a)"
    using pos by (simp add: power_int_def)
  finally show "(of_int a :: rat) < 2 powi (bitlen a)" .
qed

text \<open>The exponent computed for a positive number is that of its binade.\<close>

lemma fl_exponent_bounds:
  assumes "0 < q"
  shows "2 powi (fl_exponent q) \<le> q" and "q < 2 powi (fl_exponent q + 1)"
proof -
  obtain a b where ab: "quotient_of q = (a, b)"
    by (cases "quotient_of q")
  then have b: "0 < b" and q: "q = of_int a / of_int b"
    by (simp_all add: quotient_of_denom_pos quotient_of_div)
  from assms q b have a: "0 < a"
    by (simp add: zero_less_divide_iff)
  define A where "A = bitlen a"
  define B where "B = bitlen b"
  note ba = bitlen_rat_bounds [OF a, folded A_def]
  note bb = bitlen_rat_bounds [OF b, folded B_def]
  have bpos: "(0::rat) < of_int b" using b by simp
  have up: "q < 2 powi (A - B + 1)"
  proof -
    have "q * 2 powi (B - 1) \<le> q * of_int b"
      using bb(1) assms by simp
    also have "\<dots> = of_int a" using q bpos by simp
    also have "\<dots> < 2 powi A" by (rule ba(2))
    also have "\<dots> = 2 powi (A - B + 1) * 2 powi (B - 1)"
      by (simp flip: power_int_add)
    finally show ?thesis by simp
  qed
  have lo: "2 powi (A - B - 1) < q"
  proof -
    have "(2::rat) powi (A - B - 1) * of_int b < 2 powi (A - B - 1) * 2 powi B"
      using bb(2) by simp
    also have "\<dots> = 2 powi (A - 1)"
      by (simp flip: power_int_add)
    also have "\<dots> \<le> of_int a" by (rule ba(1))
    also have "\<dots> = q * of_int b" using q bpos by simp
    finally show ?thesis using bpos by simp
  qed
  have e: "fl_exponent q = (if 2 powi (A - B) \<le> q then A - B else A - B - 1)"
    using assms ab by (simp add: fl_exponent_def A_def B_def)
  show "2 powi (fl_exponent q) \<le> q"
    using lo by (simp add: e)
  show "q < 2 powi (fl_exponent q + 1)"
    using up by (auto simp add: e)
qed

lemma round_half_even_of_int: "round_half_even (of_int k) = k"
  by (simp add: round_half_even_def)

text \<open>
  A positive number \<open>m * 2 powi t\<close> below \<open>2 powi (t + p)\<close>, so with a significand of at most
  \<open>p\<close> bits, is representable: rounding returns it.
\<close>

lemma fl_round_exact:
  assumes "0 < q" and "q = of_int m * 2 powi t" and "q < 2 powi (t + int p)"
    and "emin \<le> t + int p - 1"
  shows "fl_round p emin q = q"
proof -
  define e where "e = max (fl_exponent q) emin"
  have "2 powi (fl_exponent q) \<le> q"
    using assms(1) by (rule fl_exponent_bounds)
  also note assms(3)
  finally have "fl_exponent q < t + int p"
    by (rule pow2_less_imp_less)
  with assms(4) have le: "e \<le> t + int p - 1"
    by (simp add: e_def)
  define d where "d = nat (t - (e - (int p - 1)))"
  have "q / 2 powi (e - (int p - 1)) = of_int m * 2 powi (t - (e - (int p - 1)))"
    by (simp add: assms(2) power_int_diff)
  also have "\<dots> = of_int (m * 2 ^ d)"
    using le by (simp add: d_def power_int_def)
  finally have "of_int (round_half_even (q / 2 powi (e - (int p - 1)))) * 2 powi (e - (int p - 1))
      = q / 2 powi (e - (int p - 1)) * 2 powi (e - (int p - 1))"
    by (simp only: round_half_even_of_int)
  also have "\<dots> = q" by simp
  finally show ?thesis
    using assms(1) by (simp add: fl_round_def Let_def e_def)
qed

lemma uint16_to_uint8:
  fixes x :: "16 word"
  shows "astype_uint8 (float64 (of_nat (unat x) / 256)) = word_of_nat (unat x div 256)"
proof -
  define n where "n = unat x"
  have n: "n < 65536"
    using unsigned_less [of x, where ?'a = nat] by (simp add: n_def)
  have fl: "float64 (of_nat n / 256) = of_nat n / 256"
  proof (cases "n = 0")
    case True
    then show ?thesis by (simp add: float64_def fl_round_def)
  next
    case False
    have p8: "(2::rat) powi (- 8) = 1 / 256"
      by (simp add: power_int_minus)
    have p45: "(65536::rat) \<le> 2 powi 45"
      by simp
    have "(of_nat n :: rat) < 65536"
      using n by (metis of_nat_less_iff of_nat_numeral)
    then have "fl_round 53 (- 1022) (of_nat n / 256) = of_nat n / 256"
      using False p45 by (intro fl_round_exact [where m = "int n" and t = "- 8"]) (simp_all add: p8)
    then show ?thesis by (simp add: float64_def)
  qed
  have "\<lfloor>(of_nat n :: rat) / 256\<rfloor> = int (n div 256)"
    using floor_divide_of_nat_eq [of n 256, where ?'a = rat] by simp
  then show ?thesis
    by (simp add: astype_uint8_def trunc_def fl flip: n_def)
qed

text \<open>
  C9. The \<open>uint16\<close> to \<open>uint8\<close> conversion is the truncating quotient by 256: the true
  division is exact in double precision, and truncation gives \<open>x div 256\<close>.
\<close>

theorem pixels_as_ubyte_uint16:
  "pixels_as_ubyte (UInt16 a) = Inr (UInt8 (map3 (\<lambda>x. word_of_nat (unat x div 256)) a))"
  by (simp only: pixels_as_ubyte.simps uint16_to_uint8)

lemma float32_of_uint8:
  assumes "n < 256"
  shows "float32 (of_nat n) = of_nat n"
proof (cases "n = 0")
  case True
  then show ?thesis by (simp add: float32_def fl_round_def)
next
  case False
  have "(256::rat) \<le> 2 powi 24"
    by simp
  moreover have "(of_nat n :: rat) < 256"
    using assms by (metis of_nat_less_iff of_nat_numeral)
  ultimately have "fl_round 24 (- 126) (of_nat n) = of_nat n"
    using False by (intro fl_round_exact [where m = "int n" and t = 0]) simp_all
  then show ?thesis by (simp add: float32_def)
qed

text \<open>The round trip of each of the 256 bytes, by evaluation.\<close>

lemma ubyte_roundtrip_0:
  "ubyte_roundtrip 0 \<and> ubyte_roundtrip 1 \<and> ubyte_roundtrip 2 \<and> ubyte_roundtrip 3 \<and>
   ubyte_roundtrip 4 \<and> ubyte_roundtrip 5 \<and> ubyte_roundtrip 6 \<and> ubyte_roundtrip 7 \<and>
   ubyte_roundtrip 8 \<and> ubyte_roundtrip 9 \<and> ubyte_roundtrip 10 \<and> ubyte_roundtrip 11 \<and>
   ubyte_roundtrip 12 \<and> ubyte_roundtrip 13 \<and> ubyte_roundtrip 14 \<and> ubyte_roundtrip 15"
  by code_simp

lemma ubyte_roundtrip_1:
  "ubyte_roundtrip 16 \<and> ubyte_roundtrip 17 \<and> ubyte_roundtrip 18 \<and> ubyte_roundtrip 19 \<and>
   ubyte_roundtrip 20 \<and> ubyte_roundtrip 21 \<and> ubyte_roundtrip 22 \<and> ubyte_roundtrip 23 \<and>
   ubyte_roundtrip 24 \<and> ubyte_roundtrip 25 \<and> ubyte_roundtrip 26 \<and> ubyte_roundtrip 27 \<and>
   ubyte_roundtrip 28 \<and> ubyte_roundtrip 29 \<and> ubyte_roundtrip 30 \<and> ubyte_roundtrip 31"
  by code_simp

lemma ubyte_roundtrip_2:
  "ubyte_roundtrip 32 \<and> ubyte_roundtrip 33 \<and> ubyte_roundtrip 34 \<and> ubyte_roundtrip 35 \<and>
   ubyte_roundtrip 36 \<and> ubyte_roundtrip 37 \<and> ubyte_roundtrip 38 \<and> ubyte_roundtrip 39 \<and>
   ubyte_roundtrip 40 \<and> ubyte_roundtrip 41 \<and> ubyte_roundtrip 42 \<and> ubyte_roundtrip 43 \<and>
   ubyte_roundtrip 44 \<and> ubyte_roundtrip 45 \<and> ubyte_roundtrip 46 \<and> ubyte_roundtrip 47"
  by code_simp

lemma ubyte_roundtrip_3:
  "ubyte_roundtrip 48 \<and> ubyte_roundtrip 49 \<and> ubyte_roundtrip 50 \<and> ubyte_roundtrip 51 \<and>
   ubyte_roundtrip 52 \<and> ubyte_roundtrip 53 \<and> ubyte_roundtrip 54 \<and> ubyte_roundtrip 55 \<and>
   ubyte_roundtrip 56 \<and> ubyte_roundtrip 57 \<and> ubyte_roundtrip 58 \<and> ubyte_roundtrip 59 \<and>
   ubyte_roundtrip 60 \<and> ubyte_roundtrip 61 \<and> ubyte_roundtrip 62 \<and> ubyte_roundtrip 63"
  by code_simp

lemma ubyte_roundtrip_4:
  "ubyte_roundtrip 64 \<and> ubyte_roundtrip 65 \<and> ubyte_roundtrip 66 \<and> ubyte_roundtrip 67 \<and>
   ubyte_roundtrip 68 \<and> ubyte_roundtrip 69 \<and> ubyte_roundtrip 70 \<and> ubyte_roundtrip 71 \<and>
   ubyte_roundtrip 72 \<and> ubyte_roundtrip 73 \<and> ubyte_roundtrip 74 \<and> ubyte_roundtrip 75 \<and>
   ubyte_roundtrip 76 \<and> ubyte_roundtrip 77 \<and> ubyte_roundtrip 78 \<and> ubyte_roundtrip 79"
  by code_simp

lemma ubyte_roundtrip_5:
  "ubyte_roundtrip 80 \<and> ubyte_roundtrip 81 \<and> ubyte_roundtrip 82 \<and> ubyte_roundtrip 83 \<and>
   ubyte_roundtrip 84 \<and> ubyte_roundtrip 85 \<and> ubyte_roundtrip 86 \<and> ubyte_roundtrip 87 \<and>
   ubyte_roundtrip 88 \<and> ubyte_roundtrip 89 \<and> ubyte_roundtrip 90 \<and> ubyte_roundtrip 91 \<and>
   ubyte_roundtrip 92 \<and> ubyte_roundtrip 93 \<and> ubyte_roundtrip 94 \<and> ubyte_roundtrip 95"
  by code_simp

lemma ubyte_roundtrip_6:
  "ubyte_roundtrip 96 \<and> ubyte_roundtrip 97 \<and> ubyte_roundtrip 98 \<and> ubyte_roundtrip 99 \<and>
   ubyte_roundtrip 100 \<and> ubyte_roundtrip 101 \<and> ubyte_roundtrip 102 \<and> ubyte_roundtrip 103 \<and>
   ubyte_roundtrip 104 \<and> ubyte_roundtrip 105 \<and> ubyte_roundtrip 106 \<and> ubyte_roundtrip 107 \<and>
   ubyte_roundtrip 108 \<and> ubyte_roundtrip 109 \<and> ubyte_roundtrip 110 \<and> ubyte_roundtrip 111"
  by code_simp

lemma ubyte_roundtrip_7:
  "ubyte_roundtrip 112 \<and> ubyte_roundtrip 113 \<and> ubyte_roundtrip 114 \<and> ubyte_roundtrip 115 \<and>
   ubyte_roundtrip 116 \<and> ubyte_roundtrip 117 \<and> ubyte_roundtrip 118 \<and> ubyte_roundtrip 119 \<and>
   ubyte_roundtrip 120 \<and> ubyte_roundtrip 121 \<and> ubyte_roundtrip 122 \<and> ubyte_roundtrip 123 \<and>
   ubyte_roundtrip 124 \<and> ubyte_roundtrip 125 \<and> ubyte_roundtrip 126 \<and> ubyte_roundtrip 127"
  by code_simp

lemma ubyte_roundtrip_8:
  "ubyte_roundtrip 128 \<and> ubyte_roundtrip 129 \<and> ubyte_roundtrip 130 \<and> ubyte_roundtrip 131 \<and>
   ubyte_roundtrip 132 \<and> ubyte_roundtrip 133 \<and> ubyte_roundtrip 134 \<and> ubyte_roundtrip 135 \<and>
   ubyte_roundtrip 136 \<and> ubyte_roundtrip 137 \<and> ubyte_roundtrip 138 \<and> ubyte_roundtrip 139 \<and>
   ubyte_roundtrip 140 \<and> ubyte_roundtrip 141 \<and> ubyte_roundtrip 142 \<and> ubyte_roundtrip 143"
  by code_simp

lemma ubyte_roundtrip_9:
  "ubyte_roundtrip 144 \<and> ubyte_roundtrip 145 \<and> ubyte_roundtrip 146 \<and> ubyte_roundtrip 147 \<and>
   ubyte_roundtrip 148 \<and> ubyte_roundtrip 149 \<and> ubyte_roundtrip 150 \<and> ubyte_roundtrip 151 \<and>
   ubyte_roundtrip 152 \<and> ubyte_roundtrip 153 \<and> ubyte_roundtrip 154 \<and> ubyte_roundtrip 155 \<and>
   ubyte_roundtrip 156 \<and> ubyte_roundtrip 157 \<and> ubyte_roundtrip 158 \<and> ubyte_roundtrip 159"
  by code_simp

lemma ubyte_roundtrip_10:
  "ubyte_roundtrip 160 \<and> ubyte_roundtrip 161 \<and> ubyte_roundtrip 162 \<and> ubyte_roundtrip 163 \<and>
   ubyte_roundtrip 164 \<and> ubyte_roundtrip 165 \<and> ubyte_roundtrip 166 \<and> ubyte_roundtrip 167 \<and>
   ubyte_roundtrip 168 \<and> ubyte_roundtrip 169 \<and> ubyte_roundtrip 170 \<and> ubyte_roundtrip 171 \<and>
   ubyte_roundtrip 172 \<and> ubyte_roundtrip 173 \<and> ubyte_roundtrip 174 \<and> ubyte_roundtrip 175"
  by code_simp

lemma ubyte_roundtrip_11:
  "ubyte_roundtrip 176 \<and> ubyte_roundtrip 177 \<and> ubyte_roundtrip 178 \<and> ubyte_roundtrip 179 \<and>
   ubyte_roundtrip 180 \<and> ubyte_roundtrip 181 \<and> ubyte_roundtrip 182 \<and> ubyte_roundtrip 183 \<and>
   ubyte_roundtrip 184 \<and> ubyte_roundtrip 185 \<and> ubyte_roundtrip 186 \<and> ubyte_roundtrip 187 \<and>
   ubyte_roundtrip 188 \<and> ubyte_roundtrip 189 \<and> ubyte_roundtrip 190 \<and> ubyte_roundtrip 191"
  by code_simp

lemma ubyte_roundtrip_12:
  "ubyte_roundtrip 192 \<and> ubyte_roundtrip 193 \<and> ubyte_roundtrip 194 \<and> ubyte_roundtrip 195 \<and>
   ubyte_roundtrip 196 \<and> ubyte_roundtrip 197 \<and> ubyte_roundtrip 198 \<and> ubyte_roundtrip 199 \<and>
   ubyte_roundtrip 200 \<and> ubyte_roundtrip 201 \<and> ubyte_roundtrip 202 \<and> ubyte_roundtrip 203 \<and>
   ubyte_roundtrip 204 \<and> ubyte_roundtrip 205 \<and> ubyte_roundtrip 206 \<and> ubyte_roundtrip 207"
  by code_simp

lemma ubyte_roundtrip_13:
  "ubyte_roundtrip 208 \<and> ubyte_roundtrip 209 \<and> ubyte_roundtrip 210 \<and> ubyte_roundtrip 211 \<and>
   ubyte_roundtrip 212 \<and> ubyte_roundtrip 213 \<and> ubyte_roundtrip 214 \<and> ubyte_roundtrip 215 \<and>
   ubyte_roundtrip 216 \<and> ubyte_roundtrip 217 \<and> ubyte_roundtrip 218 \<and> ubyte_roundtrip 219 \<and>
   ubyte_roundtrip 220 \<and> ubyte_roundtrip 221 \<and> ubyte_roundtrip 222 \<and> ubyte_roundtrip 223"
  by code_simp

lemma ubyte_roundtrip_14:
  "ubyte_roundtrip 224 \<and> ubyte_roundtrip 225 \<and> ubyte_roundtrip 226 \<and> ubyte_roundtrip 227 \<and>
   ubyte_roundtrip 228 \<and> ubyte_roundtrip 229 \<and> ubyte_roundtrip 230 \<and> ubyte_roundtrip 231 \<and>
   ubyte_roundtrip 232 \<and> ubyte_roundtrip 233 \<and> ubyte_roundtrip 234 \<and> ubyte_roundtrip 235 \<and>
   ubyte_roundtrip 236 \<and> ubyte_roundtrip 237 \<and> ubyte_roundtrip 238 \<and> ubyte_roundtrip 239"
  by code_simp

lemma ubyte_roundtrip_15:
  "ubyte_roundtrip 240 \<and> ubyte_roundtrip 241 \<and> ubyte_roundtrip 242 \<and> ubyte_roundtrip 243 \<and>
   ubyte_roundtrip 244 \<and> ubyte_roundtrip 245 \<and> ubyte_roundtrip 246 \<and> ubyte_roundtrip 247 \<and>
   ubyte_roundtrip 248 \<and> ubyte_roundtrip 249 \<and> ubyte_roundtrip 250 \<and> ubyte_roundtrip 251 \<and>
   ubyte_roundtrip 252 \<and> ubyte_roundtrip 253 \<and> ubyte_roundtrip 254 \<and> ubyte_roundtrip 255"
  by code_simp

lemmas ubyte_roundtrip_bytes =
  ubyte_roundtrip_0
  ubyte_roundtrip_1
  ubyte_roundtrip_2
  ubyte_roundtrip_3
  ubyte_roundtrip_4
  ubyte_roundtrip_5
  ubyte_roundtrip_6
  ubyte_roundtrip_7
  ubyte_roundtrip_8
  ubyte_roundtrip_9
  ubyte_roundtrip_10
  ubyte_roundtrip_11
  ubyte_roundtrip_12
  ubyte_roundtrip_13
  ubyte_roundtrip_14
  ubyte_roundtrip_15

lemma ubyte_roundtrip_all:
  assumes "0 \<le> n" and "n < 256"
  shows "ubyte_roundtrip n"
proof -
  have "list_all ubyte_roundtrip [0..255]"
    by (simp add: upto_rec1 [of 0] upto_rec1 [of 1] ubyte_roundtrip_bytes)
  then have "\<forall>n\<in>set [0..255]. ubyte_roundtrip n"
    by (simp only: list_all_iff)
  with assms show ?thesis
    by simp
qed

lemma uint8_float_uint8:
  fixes x :: "8 word"
  shows "astype_uint8 (float32 (max (min (float32 (float32 (of_nat (unat x)) / 255)) 1) 0 * 255)) = x"
proof -
  have "unat x < 256"
    using unsigned_less [of x, where ?'a = nat] by simp
  then have "float32 (of_nat (unat x)) = of_nat (unat x)"
    by (rule float32_of_uint8)
  also have "(of_nat (unat x) :: rat) = of_int (uint x)"
    by simp
  finally have a: "float32 (of_nat (unat x)) = of_int (uint x)" .
  have "ubyte_roundtrip (uint x)"
    using unsigned_less [of x, where ?'a = int] by (intro ubyte_roundtrip_all) simp_all
  then have c: "trunc (float32 (max (min (float32 (of_int (uint x) / 255)) 1) 0 * 255)) = uint x"
    by (simp only: ubyte_roundtrip_def)
  show ?thesis
    unfolding a astype_uint8_def c by simp
qed

text \<open>
  C7. Converting a \<open>uint8\<close> buffer to the float representation and back to \<open>uint8\<close>
  gives the buffer again, whatever its bytes.
\<close>

theorem uint8_float_roundtrip:
  "bind_err (pixels_as_float (UInt8 a)) pixels_as_ubyte = Inr (UInt8 a)"
proof -
  have "map3 (\<lambda>q. astype_uint8 (float32 (max (min q 1) 0 * 255)))
          (map3 (\<lambda>x. float32 (float32 (of_nat (unat x)) / 255)) a) = a"
    unfolding map3_map3 comp_def uint8_float_uint8 by (rule map3_ident) (rule refl)
  then show ?thesis
    by (simp only: pixels_as_float.simps pixels_as_ubyte.simps bind_err_def sum.case)
qed

section \<open>Properties of flipping\<close>

text \<open>
  C10. With \<open>axis = -1\<close> the flip does not fail: the pair lookup accepts the negative
  index and the buffer is flipped along its columns, exactly as with \<open>axis = 1\<close>.
\<close>

theorem numpy_flip_minus_one:
  "numpy_flip pixels (- 1) = Inr (fliplr pixels) \<and>
   numpy_flip pixels (- 1) = numpy_flip pixels 1"
  by (simp add: numpy_flip_def pair_getitem_def bind_err_def)

section \<open>Properties of the convolution\<close>

lemmas convolve_defs =
  convolve_def numpy_pad_edge_def pad_pairs_def broadcast2_def rfftn_def irfftn_def
  multiply_def getitem_slices_def slice_length_def bind_err_def Let_def

text \<open>
  C1 as stated, for every kernel, fails: a signal of shape \<open>3 \<times> 3\<close> and a kernel of shape
  \<open>2 \<times> 2\<close> are padded to \<open>5 \<times> 5\<close>, transformed at \<open>6 \<times> 6\<close>, and one sample is cut from
  each end, which leaves \<open>4 \<times> 4\<close>.
\<close>

theorem convolve_even_kernel_counterexample:
  "convolve [3, 3] [2, 2] True = Inr [4, 4] \<and> convolve [3, 3] [2, 2] True \<noteq> Inr [3, 3]"
  by (simp add: convolve_defs)

lemma convolve_1d:
  assumes "1 \<le> n" and "1 \<le> j"
  shows "convolve [n] [2 * j + 1] True = Inr [n]"
  using assms by (simp add: convolve_defs)

lemma convolve_2d:
  assumes "1 \<le> n" and "1 \<le> m" and "1 \<le> j"
  shows "convolve [n, m] [2 * j + 1, 2 * j + 1] True = Inr [n, m]"
  using assms by (simp add: convolve_defs)

text \<open>
  C1, amended. For a signal of one or two dimensions, each at least 1, and a kernel of as
  many dimensions, all of the same odd size \<open>k \<ge> 3\<close>, the padded convolution has exactly
  the shape of the signal.
\<close>

theorem convolve_same_shape:
  assumes "length sig = 1 \<or> length sig = 2"
    and "list_all (\<lambda>n. 1 \<le> n) sig"
    and "odd k" and "3 \<le> k"
  shows "convolve sig (replicate (length sig) k) True = Inr sig"
proof -
  from \<open>odd k\<close> obtain j where k: "k = 2 * j + 1"
    by (auto elim: oddE)
  with \<open>3 \<le> k\<close> have j: "1 \<le> j"
    by simp
  from assms(1) show ?thesis
  proof
    assume "length sig = 1"
    then obtain n where sig: "sig = [n]"
      by (cases sig) auto
    with assms(2) j show ?thesis
      by (simp add: k convolve_1d)
  next
    assume "length sig = 2"
    then obtain n m where sig: "sig = [n, m]"
      by (cases sig; cases "tl sig") auto
    with assms(2) j show ?thesis
      by (simp add: k convolve_2d numeral_2_eq_2)
  qed
qed

theorem convolve_same_shape_witness:
  "(length [4, 5 :: int] = 1 \<or> length [4, 5 :: int] = 2) \<and> list_all (\<lambda>n. 1 \<le> n) [4, 5 :: int]
   \<and> odd (3 :: int) \<and> (3 :: int) \<le> 3
   \<and> convolve [4, 5] (replicate (length [4, 5 :: int]) 3) True = Inr [4, 5]"
  using convolve_same_shape [of "[4, 5]" 3] by simp

text \<open>
  Outside these bounds the shape differs in other ways as well: a kernel of even size
  leaves one sample more on each axis, a kernel of two unequal sizes is padded by the
  first half-size before and the second after on both axes, and a kernel of three
  dimensions cannot be padded at all.
\<close>

lemma convolve_even_2d:
  assumes "1 \<le> n" and "1 \<le> m" and "1 \<le> j"
  shows "convolve [n, m] [2 * j, 2 * j] True = Inr [n + 1, m + 1]"
proof -
  have "(2 * j - 1) div 2 = j - 1"
    by presburger
  with assms show ?thesis
    by (simp add: convolve_defs)
qed

lemma convolve_rectangular_kernel:
  "convolve [7, 9] [3, 5] True = Inr [8, 8]"
  by (simp add: convolve_defs)

lemma convolve_3d_raises:
  "convolve [7, 8, 3] [3, 3, 3] True = Inl ValueError"
  by (simp add: convolve_defs)

text \<open>
  C2. A \<open>1 \<times> 1\<close> kernel should return the signal. Here the padding and the excess are
  both 0, the slice \<open>slice(0, -0)\<close> is \<open>slice(0, 0)\<close>, and the result is empty on both
  axes, with and without padding.
\<close>

theorem convolve_identity_kernel_empty:
  "convolve [2, 3] [1, 1] True = Inr [0, 0] \<and> convolve [2, 3] [1, 1] False = Inr [0, 0]"
  by (simp add: convolve_defs)

text \<open>The same happens for every signal of two dimensions that is not empty.\<close>

lemma convolve_unit_kernel_2d:
  assumes "1 \<le> n" and "1 \<le> m"
  shows "convolve [n, m] [1, 1] fixed = Inr [0, 0]"
  using assms by (simp add: convolve_defs)

section \<open>Properties of the Exif translation\<close>

text \<open>
  C3. When the image has no metadata accessor, when the accessor raises an exception, and
  when it returns nothing or an empty mapping, the result is \<open>None\<close>, and no exception
  reaches the caller.
\<close>

theorem extract_exif_no_metadata:
  "extract_exif h ExifTags NoGetexif = Inr None \<and>
   extract_exif h ExifTags GetexifRaises = Inr None \<and>
   extract_exif h ExifTags (GetexifReturns None) = Inr None \<and>
   extract_exif h ExifTags (GetexifReturns (Some [])) = Inr None"
  by (simp add: extract_exif_def)

lemma exif_loop_all_skipped:
  "list_all (\<lambda>kv. exif_entry h ExifTags kv = Inr None) items \<Longrightarrow>
   exif_loop h ExifTags items exif_options = Inr exif_options"
  by (induction items) simp_all

text \<open>
  C4. When the mapping is not empty and every item is skipped, the result is the
  \<open>RawExif\<close> rule with an empty list, not \<open>None\<close>.
\<close>

theorem extract_exif_all_skipped:
  assumes "exif \<noteq> []"
    and "list_all (\<lambda>kv. exif_entry h ExifTags kv = Inr None) exif"
  shows "extract_exif h ExifTags (GetexifReturns (Some exif)) =
         Inr (Some (Rule (String ''RawExif'') (ListExpression [])))"
proof -
  have "list_all (\<lambda>kv. exif_entry h ExifTags kv = Inr None) (sort_key fst exif)"
    using assms(2) by (simp add: list_all_iff)
  then have "exif_loop h ExifTags (sort_key fst exif) [] = Inr []"
    by (rule exif_loop_all_skipped)
  with assms(1) show ?thesis
    by (simp add: extract_exif_def bind_err_def)
qed

theorem extract_exif_all_skipped_witness:
  "[(700, PyOther), (5, PyInt 1)] \<noteq> [] \<and>
   list_all (\<lambda>kv. exif_entry plain_host [700 \<mapsto> ''XMLPacket''] kv = Inr None)
     [(700, PyOther), (5, PyInt 1)] \<and>
   extract_exif plain_host [700 \<mapsto> ''XMLPacket''] (GetexifReturns (Some [(700, PyOther), (5, PyInt 1)])) =
     Inr (Some (Rule (String ''RawExif'') (ListExpression [])))"
  using extract_exif_all_skipped [of "[(700, PyOther), (5, PyInt 1)]" plain_host "[700 \<mapsto> ''XMLPacket'']"]
  by (simp add: exif_entry_def bind_err_def)

text \<open>
  C5 as stated fails: the name is looked up in the standard dictionary first, and an item
  without a name there is skipped before the override table is read. With an empty
  standard dictionary (Pillow absent) the tag \<open>37385\<close> of the override table is skipped.
\<close>

theorem extract_exif_override_only_counterexample:
  "Exif_names 37385 = Some ''FlashInfo'' \<and> no_ExifTags 37385 = None \<and>
   extract_exif plain_host no_ExifTags (GetexifReturns (Some [(37385, PyInt 1)])) =
     Inr (Some (Rule (String ''RawExif'') (ListExpression [])))"
  by (simp add: Exif_names_def no_ExifTags_def extract_exif_def exif_entry_def bind_err_def)

lemma exif_entry_emitted:
  "exif_entry h ExifTags kv = Inr r \<Longrightarrow> emitted h ExifTags kv = (case r of None \<Rightarrow> [] | Some option \<Rightarrow> [option])"
  by (auto simp: exif_entry_def emitted_def bind_err_def split: prod.splits option.splits sum.splits if_splits)

lemma exif_loop_emitted:
  "exif_loop h ExifTags items acc = Inr opts \<Longrightarrow>
   opts = acc @ concat (map (emitted h ExifTags) items)"
proof (induction items arbitrary: acc)
  case Nil
  then show ?case by simp
next
  case (Cons kv items)
  show ?case
  proof (cases "exif_entry h ExifTags kv")
    case (Inl e)
    with Cons.prems show ?thesis by simp
  next
    case (Inr r)
    note entry = exif_entry_emitted [OF Inr]
    show ?thesis
    proof (cases r)
      case None
      with Inr Cons entry show ?thesis by simp
    next
      case (Some option)
      with Inr Cons.prems have "exif_loop h ExifTags items (acc @ [option]) = Inr opts"
        by simp
      from Cons.IH [OF this] entry Some show ?thesis
        by simp
    qed
  qed
qed

text \<open>
  C5, amended. The rules of the result are, in the order of the tag ids, those of the
  items whose tag id has a non-empty name in the standard dictionary and whose value has a
  supported type; the display name of such an item is the name the override table gives
  for its tag id and, only if the table has none, the standard name.
\<close>

theorem extract_exif_names:
  assumes "extract_exif h ExifTags (GetexifReturns (Some exif)) =
           Inr (Some (Rule (String ''RawExif'') (ListExpression opts)))"
  shows "opts = concat (map (emitted h ExifTags) (sort_key fst exif))"
  using assms
  by (auto simp: extract_exif_def bind_err_def split: if_splits sum.splits dest: exif_loop_emitted)

theorem extract_exif_names_witness:
  "extract_exif plain_host [271 \<mapsto> ''Make'', 40962 \<mapsto> ''ExifImageWidth'']
     (GetexifReturns (Some [(40962, PyInt 640), (271, PyStr ''ACME'')])) =
     Inr (Some (Rule (String ''RawExif'') (ListExpression
       [Rule (String ''Make'') (String ''ACME''), Rule (String ''PixelXDimension'') (Integer 640)]))) \<and>
   [Rule (String ''Make'') (String ''ACME''), Rule (String ''PixelXDimension'') (Integer 640)] =
     concat (map (emitted plain_host [271 \<mapsto> ''Make'', 40962 \<mapsto> ''ExifImageWidth''])
       (sort_key fst [(40962, PyInt 640), (271, PyStr ''ACME'')]))"
proof -
  have h: "extract_exif plain_host [271 \<mapsto> ''Make'', 40962 \<mapsto> ''ExifImageWidth'']
     (GetexifReturns (Some [(40962, PyInt 640), (271, PyStr ''ACME'')])) =
     Inr (Some (Rule (String ''RawExif'') (ListExpression
       [Rule (String ''Make'') (String ''ACME''), Rule (String ''PixelXDimension'') (Integer 640)])))"
    by (simp add: extract_exif_def exif_entry_def bind_err_def Exif_names_def)
  from h extract_exif_names [OF h] show ?thesis
    by (rule conjI)
qed

lemma exif_loop_sorted:
  "exif_loop h ExifTags items acc = Inr opts \<Longrightarrow>
   \<exists>new. opts = acc @ new \<and>
     list_all2 (\<lambda>kv option. exif_entry h ExifTags kv = Inr (Some option))
       (filter (\<lambda>kv. exif_entry h ExifTags kv \<noteq> Inr None) items) new"
proof (induction items arbitrary: acc)
  case Nil
  then show ?case by simp
next
  case (Cons kv items)
  show ?case
  proof (cases "exif_entry h ExifTags kv")
    case (Inl e)
    with Cons.prems show ?thesis by simp
  next
    case (Inr r)
    show ?thesis
    proof (cases r)
      case None
      with Inr Cons show ?thesis by simp
    next
      case (Some option)
      with Inr Cons.prems have "exif_loop h ExifTags items (acc @ [option]) = Inr opts"
        by simp
      from Cons.IH [OF this] Inr Some show ?thesis
        by auto
    qed
  qed
qed

text \<open>
  C6. The rules of the result come from items of the mapping taken in ascending order of
  their tag ids.
\<close>

theorem extract_exif_sorted:
  assumes "extract_exif h ExifTags (GetexifReturns (Some exif)) =
           Inr (Some (Rule (String ''RawExif'') (ListExpression opts)))"
  shows "\<exists>items. sorted (map fst items) \<and> set items \<subseteq> set exif \<and>
           list_all2 (\<lambda>kv option. exif_entry h ExifTags kv = Inr (Some option)) items opts"
proof -
  from assms have "exif_loop h ExifTags (sort_key fst exif) [] = Inr opts"
    by (auto simp: extract_exif_def bind_err_def split: if_splits sum.splits)
  from exif_loop_sorted [OF this]
  have *: "list_all2 (\<lambda>kv option. exif_entry h ExifTags kv = Inr (Some option))
       (filter (\<lambda>kv. exif_entry h ExifTags kv \<noteq> Inr None) (sort_key fst exif)) opts"
    by simp
  have "sorted (map fst (filter (\<lambda>kv. exif_entry h ExifTags kv \<noteq> Inr None) (sort_key fst exif)))"
    by (rule sorted_filter) simp
  moreover have "set (filter (\<lambda>kv. exif_entry h ExifTags kv \<noteq> Inr None) (sort_key fst exif)) \<subseteq> set exif"
    by auto
  ultimately show ?thesis
    using * by blast
qed

theorem extract_exif_sorted_witness:
  "extract_exif plain_host [271 \<mapsto> ''Make'', 37386 \<mapsto> ''FocalLength'']
     (GetexifReturns (Some [(37386, PyTuple [PyInt 35, PyInt 1]), (271, PyBytes [65, 9])])) =
     Inr (Some (Rule (String ''RawExif'') (ListExpression
       [Rule (String ''Make'') (String ''65 9''), Rule (String ''FocalLength'') (RationalAtom 35 1)]))) \<and>
   (\<exists>items. sorted (map fst items) \<and>
      set items \<subseteq> set [(37386, PyTuple [PyInt 35, PyInt 1]), (271, PyBytes [65, 9])] \<and>
      list_all2 (\<lambda>kv option. exif_entry plain_host [271 \<mapsto> ''Make'', 37386 \<mapsto> ''FocalLength''] kv
                   = Inr (Some option)) items
        [Rule (String ''Make'') (String ''65 9''), Rule (String ''FocalLength'') (RationalAtom 35 1)])"
proof -
  have h: "extract_exif plain_host [271 \<mapsto> ''Make'', 37386 \<mapsto> ''FocalLength'']
     (GetexifReturns (Some [(37386, PyTuple [PyInt 35, PyInt 1]), (271, PyBytes [65, 9])])) =
     Inr (Some (Rule (String ''RawExif'') (ListExpression
       [Rule (String ''Make'') (String ''65 9''), Rule (String ''FocalLength'') (RationalAtom 35 1)])))"
    by code_simp
  from h extract_exif_sorted [OF h] show ?thesis
    by (rule conjI)
qed


end
